theory Spec2Isabelle
  imports Complex_Main "HOL-Library.AList" "HOL-Library.While_Combinator"
begin

section \<open>TomTom road-network readers (yamm/maps/nx/readers/tomtom_readers.py)\<close>

text \<open>
  A shallow embedding of the four functions of \<open>tomtom_readers.py\<close> and of the parts of
  pandas, shapely and networkx they call. Dataframes are lists of rows, one record field
  per column; a column operation of the source is the same operation on every row.
  Exceptions are values of type \<open>error\<close>, returned as \<open>Inl\<close>.
\<close>

subsection \<open>Python values\<close>

text \<open>
  A float64 cell. \<open>NaN\<close> is also the missing value of pandas (\<open>fillna\<close> replaces it).
  Finite values are real numbers: rounding, overflow and the sign of zero are not modelled.
\<close>

datatype pyfloat = Fin real | PInf | NInf | NaN

text \<open>An infinity of the given sign (\<open>True\<close> is positive).\<close>

definition inf_of :: "bool \<Rightarrow> pyfloat" where
  "inf_of pos = (if pos then PInf else NInf)"

text \<open>numpy's float multiplication.\<close>

fun fmul :: "pyfloat \<Rightarrow> pyfloat \<Rightarrow> pyfloat" where
  "fmul NaN _ = NaN"
| "fmul _ NaN = NaN"
| "fmul (Fin a) (Fin b) = Fin (a * b)"
| "fmul (Fin a) PInf = (if a = 0 then NaN else inf_of (0 < a))"
| "fmul (Fin a) NInf = (if a = 0 then NaN else inf_of (a < 0))"
| "fmul PInf (Fin b) = (if b = 0 then NaN else inf_of (0 < b))"
| "fmul NInf (Fin b) = (if b = 0 then NaN else inf_of (b < 0))"
| "fmul PInf PInf = PInf"
| "fmul PInf NInf = NInf"
| "fmul NInf PInf = NInf"
| "fmul NInf NInf = PInf"

text \<open>
  numpy's float division: a finite value divided by zero is an infinity (\<open>0 / 0\<close> is NaN);
  no exception is raised.
\<close>

fun fdiv :: "pyfloat \<Rightarrow> pyfloat \<Rightarrow> pyfloat" where
  "fdiv NaN _ = NaN"
| "fdiv _ NaN = NaN"
| "fdiv (Fin a) (Fin b) =
     (if b = 0 then (if a = 0 then NaN else inf_of (0 < a)) else Fin (a / b))"
| "fdiv (Fin a) PInf = Fin 0"
| "fdiv (Fin a) NInf = Fin 0"
| "fdiv PInf (Fin b) = inf_of (0 \<le> b)"
| "fdiv NInf (Fin b) = inf_of (b < 0)"
| "fdiv PInf PInf = NaN"
| "fdiv PInf NInf = NaN"
| "fdiv NInf PInf = NaN"
| "fdiv NInf NInf = NaN"

text \<open>\<open>x < c\<close> on a float cell: a comparison with NaN is false.\<close>

fun flt :: "pyfloat \<Rightarrow> real \<Rightarrow> bool" where
  "flt (Fin a) c = (a < c)"
| "flt NInf c = True"
| "flt PInf c = False"
| "flt NaN c = False"

text \<open>\<open>Series.fillna(v)\<close> on a float cell.\<close>

fun fillna :: "real \<Rightarrow> pyfloat \<Rightarrow> pyfloat" where
  "fillna v NaN = Fin v"
| "fillna v x = x"

text \<open>Coordinate reference systems: the two constants of \<open>yamm.utils.crs\<close>, and any other.\<close>

datatype crs = LATLON_CRS | XY_CRS | Other_CRS string

type_synonym coord = "real \<times> real"

text \<open>A shapely \<open>LineString\<close>, as its coordinate sequence \<open>g.coords\<close>.\<close>

type_synonym linestring = "coord list"

text \<open>
  Hashable scalars: the values that occur as node identifiers, as edge keys and as the
  vintage tag (an \<open>int\<close> or a \<open>str\<close>).
\<close>

datatype atom = AInt int | AStr string

text \<open>The values held by cells of object columns, edge attributes and graph attributes.\<close>

datatype pyobj =
    PyNone
  | PyAtom atom
  | PyFloat pyfloat
  | PyGeom linestring
  | PyCrs crs

text \<open>The exceptions the readers raise, one constructor per raise site.\<close>

datatype error =
    TypeError_geofence_crs crs
      \<comment> \<open>\<open>TypeError("the geofence must in the epsg:4326 crs but got ...")\<close>\<close>
  | TypeError_vintage atom
      \<comment> \<open>\<open>TypeError("vintage ... not supported; must be either '2021' or '2017'")\<close>\<close>
  | MapException_no_links
      \<comment> \<open>\<open>MapException("road network has no links; check geofence boundaries")\<close>\<close>
  | MapException_not_routable
      \<comment> \<open>\<open>MapException("road network has no strongly connected components ...")\<close>\<close>
  | ValueError_max_empty
      \<comment> \<open>raised by the builtin \<open>max\<close> on an iterable that yields nothing\<close>
  | ValueError_astype_int
      \<comment> \<open>raised by \<open>Series.astype(int)\<close> on NaN or an infinity\<close>
  | IndexError
      \<comment> \<open>raised by \<open>list(g.coords)[0]\<close> on a geometry without coordinates\<close>

subsection \<open>Dataframes\<close>

text \<open>A \<open>GeoDataFrame\<close>: its \<open>crs\<close> attribute (\<open>None\<close> when unset) and its rows.\<close>

record 'r gdf =
  gdf_crs :: "crs option"
  gdf_rows :: "'r list"

text \<open>The columns of \<open>tomtom_2021.network\<close> that the reader uses.\<close>

record raw_2021 =
  junction_id_from :: atom
  junction_id_to :: atom
  netw_id :: atom
  simple_traffic_direction :: pyfloat
  centimeters :: pyfloat
  speed_average_neg :: pyfloat
  speed_average_pos :: pyfloat
  geom :: linestring

text \<open>The same row with the three columns \<open>get_tomtom_gdf_2021\<close> adds.\<close>

record row_2021 = raw_2021 +
  kilometers :: pyfloat
  neg_minutes :: pyfloat
  pos_minutes :: pyfloat

text \<open>A geofence: its \<open>crs\<close> and its boundary.\<close>

record geofence =
  fence_crs :: crs
  fence_geometry :: "coord list"

text \<open>
  The two queries the readers send, and the connection that answers them:
  \<open>GeoDataFrame.from_postgis\<close> on the 2021 and on the 2017 table.
\<close>

datatype sql_query = Select_2021 geofence | Select_2017 geofence

subsection \<open>\<open>get_tomtom_gdf_2021\<close>\<close>

text \<open>
  The column assignments of lines 79 to 83, on one row:
  both speeds \<open>fillna(20)\<close>, \<open>kilometers = centimeters * 0.00001\<close>,
  \<open>neg_minutes = (kilometers / speed_average_neg) * 60\<close> and the same for \<open>pos\<close>.
\<close>

definition add_columns_2021 :: "raw_2021 \<Rightarrow> row_2021" where
  "add_columns_2021 r =
     (let sneg = fillna 20 (speed_average_neg r);
          spos = fillna 20 (speed_average_pos r);
          km = fmul (centimeters r) (Fin 0.00001)
      in raw_2021.extend (r\<lparr>speed_average_neg := sneg, speed_average_pos := spos\<rparr>)
           (row_2021.fields km (fmul (fdiv km sneg) (Fin 60)) (fmul (fdiv km spos) (Fin 60))))"

text \<open>
  \<open>gdf.to_crs(target)\<close>: every coordinate goes through the projection \<open>proj\<close> from the
  frame's crs to the target (the projection itself is pyproj's, a parameter here).
\<close>

definition to_crs_2021 ::
  "(crs option \<Rightarrow> crs \<Rightarrow> coord \<Rightarrow> coord) \<Rightarrow> crs \<Rightarrow> row_2021 gdf \<Rightarrow> row_2021 gdf" where
  "to_crs_2021 proj target g =
     \<lparr>gdf_crs = Some target,
      gdf_rows = map (\<lambda>r. r\<lparr>geom := map (proj (gdf_crs g) target) (geom r)\<rparr>) (gdf_rows g)\<rparr>"

text \<open>
  \<open>get_tomtom_gdf_2021\<close>. \<open>sql_con\<close> answers the query; the result is the list of queries
  sent and the frame or the exception.
\<close>

definition get_tomtom_gdf_2021 ::
  "(crs option \<Rightarrow> crs \<Rightarrow> coord \<Rightarrow> coord) \<Rightarrow> (geofence \<Rightarrow> raw_2021 gdf) \<Rightarrow> geofence \<Rightarrow> bool
     \<Rightarrow> sql_query list \<times> (error + row_2021 gdf)" where
  "get_tomtom_gdf_2021 proj sql_con fence xy =
     (let q = Select_2021 fence;
          gdf = sql_con fence
      in if gdf_rows gdf = [] then ([q], Inl MapException_no_links)
         else
           let c = (if gdf_crs gdf = None then Some LATLON_CRS else gdf_crs gdf);
               gdf2 = \<lparr>gdf_crs = c, gdf_rows = map add_columns_2021 (gdf_rows gdf)\<rparr>
           in ([q], Inr (if xy then to_crs_2021 proj XY_CRS gdf2 else gdf2)))"

subsection \<open>\<open>get_tomtom_gdf_2017\<close>\<close>

text \<open>
  The columns the 2017 query selects (\<open>id_col\<close> is the column \<open>id\<close>). The three
  identifier columns have the cell type
  \<open>'i\<close>: floats as they come from the database, integers after \<open>astype(int)\<close>.
  \<open>oneway\<close> is an object column (a string, or \<open>None\<close> for a missing value).
\<close>

record 'i raw_2017 =
  id_col :: 'i
  f_jnctid :: 'i
  t_jnctid :: 'i
  frc :: pyfloat
  backrd :: pyfloat
  rdcond :: pyfloat
  privaterd :: pyfloat
  roughrd :: pyfloat
  meters :: pyfloat
  minutes :: pyfloat
  oneway :: pyobj
  wkb_geometry :: linestring

text \<open>The same row with the column \<open>kilometers\<close> that \<open>get_tomtom_gdf_2017\<close> adds.\<close>

record 'i row_2017 = "'i raw_2017" +
  kilometers17 :: pyfloat

text \<open>\<open>fillna(0)\<close> on a cell of an object column.\<close>

fun fillna_obj :: "pyobj \<Rightarrow> pyobj" where
  "fillna_obj PyNone = PyAtom (AInt 0)"
| "fillna_obj (PyFloat x) = PyFloat (fillna 0 x)"
| "fillna_obj x = x"

text \<open>\<open>raw_gdf["kilometers"] = raw_gdf.meters / 1000\<close> (line 120), on one row.\<close>

definition add_columns_2017 :: "pyfloat raw_2017 \<Rightarrow> pyfloat row_2017" where
  "add_columns_2017 r = raw_2017.extend r (row_2017.fields (fdiv (meters r) (Fin 1000)))"

text \<open>The row mask of line 122: \<open>(raw_gdf.rdcond < 2) & (raw_gdf.frc < 8)\<close>.\<close>

definition keep_2017 :: "pyfloat row_2017 \<Rightarrow> bool" where
  "keep_2017 r = (flt (rdcond r) 2 \<and> flt (frc r) 8)"

text \<open>\<open>.fillna(0)\<close> of line 122 on one row: every column but the geometry.\<close>

definition fillna0_2017 :: "pyfloat row_2017 \<Rightarrow> pyfloat row_2017" where
  "fillna0_2017 r =
     r\<lparr>id_col := fillna 0 (id_col r), f_jnctid := fillna 0 (f_jnctid r),
       t_jnctid := fillna 0 (t_jnctid r), frc := fillna 0 (frc r),
       backrd := fillna 0 (backrd r), rdcond := fillna 0 (rdcond r),
       privaterd := fillna 0 (privaterd r), roughrd := fillna 0 (roughrd r),
       meters := fillna 0 (meters r), minutes := fillna 0 (minutes r),
       oneway := fillna_obj (oneway r), kilometers17 := fillna 0 (kilometers17 r)\<rparr>"

definition to_crs_2017 ::
  "(crs option \<Rightarrow> crs \<Rightarrow> coord \<Rightarrow> coord) \<Rightarrow> crs \<Rightarrow> 'i row_2017 gdf \<Rightarrow> 'i row_2017 gdf" where
  "to_crs_2017 proj target g =
     \<lparr>gdf_crs = Some target,
      gdf_rows = map (\<lambda>r. r\<lparr>wkb_geometry := map (proj (gdf_crs g) target) (wkb_geometry r)\<rparr>)
                   (gdf_rows g)\<rparr>"

text \<open>
  \<open>get_tomtom_gdf_2017\<close>: the emptiness check of line 114 is on the query's answer;
  the row mask and \<open>fillna(0)\<close> come after it.
\<close>

definition get_tomtom_gdf_2017 ::
  "(crs option \<Rightarrow> crs \<Rightarrow> coord \<Rightarrow> coord) \<Rightarrow> (geofence \<Rightarrow> pyfloat raw_2017 gdf) \<Rightarrow> geofence
     \<Rightarrow> bool \<Rightarrow> sql_query list \<times> (error + pyfloat row_2017 gdf)" where
  "get_tomtom_gdf_2017 proj sql_con fence xy =
     (let q = Select_2017 fence;
          raw_gdf = sql_con fence
      in if gdf_rows raw_gdf = [] then ([q], Inl MapException_no_links)
         else
           let c = (if gdf_crs raw_gdf = None then Some LATLON_CRS else gdf_crs raw_gdf);
               with_km = map add_columns_2017 (gdf_rows raw_gdf);
               gdf2 = \<lparr>gdf_crs = c, gdf_rows = map fillna0_2017 (filter keep_2017 with_km)\<rparr>
           in ([q], Inr (if xy then to_crs_2017 proj XY_CRS gdf2 else gdf2)))"

subsection \<open>networkx: \<open>MultiDiGraph\<close>\<close>

text \<open>
  An attribute dictionary, in insertion order. An edge as \<open>add_edges_from\<close> takes it:
  \<open>(u, v, key, attributes)\<close>.
\<close>

type_synonym attrs = "(string \<times> pyobj) list"

type_synonym edge_tuple = "atom \<times> atom \<times> atom \<times> attrs"

text \<open>
  A \<open>MultiDiGraph\<close>: the nodes in insertion order, the attribute dictionary of each edge
  under its address \<open>(u, v, key)\<close>, and the graph attributes \<open>G.graph\<close>.
\<close>

record nx_graph =
  nodes :: "atom list"
  edges :: "((atom \<times> atom \<times> atom) \<times> attrs) list"
  graph :: attrs

definition MultiDiGraph :: nx_graph where
  "MultiDiGraph = \<lparr>nodes = [], edges = [], graph = []\<rparr>"

text \<open>\<open>d.update(dd)\<close>: a key of \<open>dd\<close> already in \<open>d\<close> is overwritten, a new one is added.\<close>

definition dict_update :: "('k \<times> 'v) list \<Rightarrow> ('k \<times> 'v) list \<Rightarrow> ('k \<times> 'v) list" where
  "dict_update d dd = fold (\<lambda>(k, v). AList.update k v) dd d"

definition add_node :: "atom \<Rightarrow> nx_graph \<Rightarrow> nx_graph" where
  "add_node n G = (if n \<in> set (nodes G) then G else G\<lparr>nodes := nodes G @ [n]\<rparr>)"

text \<open>
  One step of \<open>add_edges_from\<close>: both endpoints become nodes, and the attributes update
  the dictionary at \<open>(u, v, key)\<close>, which is new and empty when the address is.
\<close>

fun add_edge :: "edge_tuple \<Rightarrow> nx_graph \<Rightarrow> nx_graph" where
  "add_edge (u, v, key, dd) G =
     (let G1 = add_node v (add_node u G);
          datadict = (case map_of (edges G1) (u, v, key) of None \<Rightarrow> [] | Some d \<Rightarrow> d)
      in G1\<lparr>edges := AList.update (u, v, key) (dict_update datadict dd) (edges G1)\<rparr>)"

definition add_edges_from :: "edge_tuple list \<Rightarrow> nx_graph \<Rightarrow> nx_graph" where
  "add_edges_from ebunch G = fold add_edge ebunch G"

text \<open>
  \<open>nx.MultiDiGraph(G.subgraph(c))\<close>: the nodes of \<open>c\<close>, the edges of \<open>G\<close> with both ends in
  \<open>c\<close>, and the graph attributes of \<open>G\<close>.
\<close>

definition subgraph :: "nx_graph \<Rightarrow> atom list \<Rightarrow> nx_graph" where
  "subgraph G c =
     \<lparr>nodes = filter (\<lambda>n. n \<in> set c) (nodes G),
      edges = filter (\<lambda>((u, v, key), dd). u \<in> set c \<and> v \<in> set c) (edges G),
      graph = graph G\<rparr>"

subsection \<open>networkx: strongly connected components\<close>

definition successors :: "nx_graph \<Rightarrow> atom \<Rightarrow> atom list" where
  "successors G u = map (\<lambda>((a, b, key), dd). b) (filter (\<lambda>((a, b, key), dd). a = u) (edges G))"

text \<open>The nodes that a directed path from \<open>u\<close> reaches (\<open>u\<close> itself among them).\<close>

definition descendants :: "nx_graph \<Rightarrow> atom \<Rightarrow> atom set" where
  "descendants G u =
     (case rtrancl_while (\<lambda>_. True) (successors G) u of
        Some (ws, Z) \<Rightarrow> Z
      | None \<Rightarrow> {})"

text \<open>The strongly connected component of \<open>u\<close>: the nodes on a directed cycle through \<open>u\<close>.\<close>

definition component_of :: "nx_graph \<Rightarrow> atom \<Rightarrow> atom list" where
  "component_of G u = filter (\<lambda>v. v \<in> descendants G u \<and> u \<in> descendants G v) (nodes G)"

text \<open>
  A generator object, with the items it yields. Generators define neither \<open>__bool__\<close> nor
  \<open>__len__\<close>, so the truth value of a generator object is \<open>True\<close>, whatever it yields.
\<close>

datatype 'a generator = Generator "'a list"

fun items :: "'a generator \<Rightarrow> 'a list" where
  "items (Generator xs) = xs"

definition truth :: "'a generator \<Rightarrow> bool" where
  "truth g = True"

text \<open>
  \<open>nx.strongly_connected_components(G)\<close>: a generator of the components, each once.
  networkx documents no order of the components; here a component comes at the place of
  its last node in node order.
\<close>

definition strongly_connected_components :: "nx_graph \<Rightarrow> atom list generator" where
  "strongly_connected_components G = Generator (remdups (map (component_of G) (nodes G)))"

text \<open>
  The builtin \<open>max(iterable, key=len)\<close>: the first of the longest items, and a
  \<open>ValueError\<close> when the iterable yields nothing.
\<close>

fun max_len :: "'a list generator \<Rightarrow> error + 'a list" where
  "max_len (Generator []) = Inl ValueError_max_empty"
| "max_len (Generator (c # cs)) =
     Inr (fold (\<lambda>x best. if length best < length x then x else best) cs c)"

subsection \<open>The tail shared by both graph builders\<close>

text \<open>
  Lines 237 to 245 of \<open>tomtom_gdf_to_nx_graph_2021\<close>, and the same text at lines 365 to
  373 of \<open>tomtom_gdf_to_nx_graph_2017\<close>: the test \<open>if not sg_components\<close> is on the
  generator object, and \<open>max\<close> then consumes it.
\<close>

definition largest_component :: "nx_graph \<Rightarrow> error + nx_graph" where
  "largest_component G =
     (let sg_components = strongly_connected_components G
      in if \<not> truth sg_components then Inl MapException_not_routable
         else (case max_len sg_components of
                 Inl e \<Rightarrow> Inl e
               | Inr c \<Rightarrow> Inr (subgraph G c)))"

text \<open>Lines 247 to 251, and 375 to 379: the five assignments to \<open>G.graph\<close>.\<close>

definition crs_obj :: "crs option \<Rightarrow> pyobj" where
  "crs_obj c = (case c of None \<Rightarrow> PyNone | Some x \<Rightarrow> PyCrs x)"

definition set_graph_keys :: "crs option \<Rightarrow> nx_graph \<Rightarrow> nx_graph" where
  "set_graph_keys c G =
     G\<lparr>graph := dict_update (graph G)
        [(''crs'', crs_obj c),
         (''distance_weight'', PyAtom (AStr ''kilometers'')),
         (''time_weight'', PyAtom (AStr ''minutes'')),
         (''geometry_key'', PyAtom (AStr ''geom'')),
         (''road_id_key'', PyAtom (AStr ''road_id''))]\<rparr>"

text \<open>The attribute dictionary literal of the eight edge comprehensions.\<close>

definition attr_dict :: "pyfloat \<Rightarrow> pyfloat \<Rightarrow> linestring \<Rightarrow> atom \<Rightarrow> attrs" where
  "attr_dict km mn g rid =
     [(''kilometers'', PyFloat km), (''minutes'', PyFloat mn), (''geom'', PyGeom g),
      (''road_id'', PyAtom rid)]"

subsection \<open>\<open>tomtom_gdf_to_nx_graph_2021\<close>\<close>

text \<open>The three row selections of lines 140 to 142.\<close>

definition oneway_ft_2021 :: "row_2021 list \<Rightarrow> row_2021 list" where
  "oneway_ft_2021 rows = filter (\<lambda>r. simple_traffic_direction r = Fin 2) rows"

definition oneway_tf_2021 :: "row_2021 list \<Rightarrow> row_2021 list" where
  "oneway_tf_2021 rows = filter (\<lambda>r. simple_traffic_direction r = Fin 3) rows"

definition twoway_2021 :: "row_2021 list \<Rightarrow> row_2021 list" where
  "twoway_2021 rows =
     filter (\<lambda>r. simple_traffic_direction r = Fin 1 \<or> simple_traffic_direction r = Fin 9) rows"

text \<open>The four comprehensions of lines 144 to 229; \<open>LineString(reversed(g.coords))\<close> is \<open>rev\<close>.\<close>

definition twoway_edges_tf_2021 :: "row_2021 list \<Rightarrow> edge_tuple list" where
  "twoway_edges_tf_2021 rows =
     map (\<lambda>r. (junction_id_to r, junction_id_from r, netw_id r,
               attr_dict (kilometers r) (neg_minutes r) (rev (geom r)) (netw_id r)))
         (twoway_2021 rows)"

definition twoway_edges_ft_2021 :: "row_2021 list \<Rightarrow> edge_tuple list" where
  "twoway_edges_ft_2021 rows =
     map (\<lambda>r. (junction_id_from r, junction_id_to r, netw_id r,
               attr_dict (kilometers r) (pos_minutes r) (geom r) (netw_id r)))
         (twoway_2021 rows)"

definition oneway_edges_ft_2021 :: "row_2021 list \<Rightarrow> edge_tuple list" where
  "oneway_edges_ft_2021 rows =
     map (\<lambda>r. (junction_id_from r, junction_id_to r, netw_id r,
               attr_dict (kilometers r) (pos_minutes r) (geom r) (netw_id r)))
         (oneway_ft_2021 rows)"

definition oneway_edges_tf_2021 :: "row_2021 list \<Rightarrow> edge_tuple list" where
  "oneway_edges_tf_2021 rows =
     map (\<lambda>r. (junction_id_to r, junction_id_from r, netw_id r,
               attr_dict (kilometers r) (neg_minutes r) (rev (geom r)) (netw_id r)))
         (oneway_tf_2021 rows)"

text \<open>All edge tuples in the order lines 232 to 235 add them.\<close>

definition edge_tuples_2021 :: "row_2021 list \<Rightarrow> edge_tuple list" where
  "edge_tuples_2021 rows =
     twoway_edges_tf_2021 rows @ twoway_edges_ft_2021 rows @
     oneway_edges_ft_2021 rows @ oneway_edges_tf_2021 rows"

text \<open>The graph of lines 231 to 235, before the reduction to a component.\<close>

definition built_graph_2021 :: "row_2021 list \<Rightarrow> nx_graph" where
  "built_graph_2021 rows =
     add_edges_from (oneway_edges_tf_2021 rows)
       (add_edges_from (oneway_edges_ft_2021 rows)
         (add_edges_from (twoway_edges_ft_2021 rows)
           (add_edges_from (twoway_edges_tf_2021 rows) MultiDiGraph)))"

definition tomtom_gdf_to_nx_graph_2021 :: "row_2021 gdf \<Rightarrow> error + nx_graph" where
  "tomtom_gdf_to_nx_graph_2021 gdf =
     (case largest_component (built_graph_2021 (gdf_rows gdf)) of
        Inl e \<Rightarrow> Inl e
      | Inr G \<Rightarrow> Inr (set_graph_keys (gdf_crs gdf) G))"

subsection \<open>\<open>tomtom_gdf_to_nx_graph_2017\<close>\<close>

text \<open>
  \<open>Series.astype(int)\<close> on a float cell: truncation towards zero, and a \<open>ValueError\<close> on
  NaN and on the infinities.
\<close>

fun astype_int :: "pyfloat \<Rightarrow> error + int" where
  "astype_int (Fin x) = Inr (if 0 \<le> x then \<lfloor>x\<rfloor> else \<lceil>x\<rceil>)"
| "astype_int _ = Inl ValueError_astype_int"

text \<open>Python's \<open>str\<close> on an \<open>int\<close>: the decimal digits, after a minus sign when negative.\<close>

fun str_nat :: "nat \<Rightarrow> string" where
  "str_nat n =
     (if n < 10 then [char_of (48 + n)] else str_nat (n div 10) @ [char_of (48 + n mod 10)])"

definition str_int :: "int \<Rightarrow> string" where
  "str_int k = (if k < 0 then CHR ''-'' # str_nat (nat (- k)) else str_nat (nat k))"

text \<open>
  Lines 263 to 265 on one row: the three identifier cells as integers. Every failure is
  the same exception, so taking the rows one by one raises what the three column
  conversions raise.
\<close>

definition astype_int_row :: "pyfloat row_2017 \<Rightarrow> error + int row_2017" where
  "astype_int_row r =
     (case astype_int (id_col r) of Inl e \<Rightarrow> Inl e | Inr k \<Rightarrow>
     (case astype_int (f_jnctid r) of Inl e \<Rightarrow> Inl e | Inr f \<Rightarrow>
     (case astype_int (t_jnctid r) of Inl e \<Rightarrow> Inl e | Inr t \<Rightarrow>
        Inr \<lparr>id_col = k, f_jnctid = f, t_jnctid = t, frc = frc r, backrd = backrd r,
             rdcond = rdcond r, privaterd = privaterd r, roughrd = roughrd r,
             meters = meters r, minutes = minutes r, oneway = oneway r,
             wkb_geometry = wkb_geometry r, kilometers17 = kilometers17 r\<rparr>)))"

fun astype_int_rows :: "pyfloat row_2017 list \<Rightarrow> error + int row_2017 list" where
  "astype_int_rows [] = Inr []"
| "astype_int_rows (r # rs) =
     (case astype_int_row r of Inl e \<Rightarrow> Inl e | Inr r' \<Rightarrow>
     (case astype_int_rows rs of Inl e \<Rightarrow> Inl e | Inr rs' \<Rightarrow> Inr (r' # rs')))"

text \<open>The three row selections of lines 270 to 272.\<close>

definition oneway_ft_2017 :: "int row_2017 list \<Rightarrow> int row_2017 list" where
  "oneway_ft_2017 rows = filter (\<lambda>r. oneway r = PyAtom (AStr ''FT'')) rows"

definition oneway_tf_2017 :: "int row_2017 list \<Rightarrow> int row_2017 list" where
  "oneway_tf_2017 rows = filter (\<lambda>r. oneway r = PyAtom (AStr ''TF'')) rows"

definition twoway_2017 :: "int row_2017 list \<Rightarrow> int row_2017 list" where
  "twoway_2017 rows =
     filter (\<lambda>r. \<not> oneway r = PyAtom (AStr ''FT'') \<and> \<not> oneway r = PyAtom (AStr ''TF'')) rows"

text \<open>The four comprehensions of lines 274 to 357.\<close>

definition twoway_edges_tf_2017 :: "int row_2017 list \<Rightarrow> edge_tuple list" where
  "twoway_edges_tf_2017 rows =
     map (\<lambda>r. (AInt (t_jnctid r), AInt (f_jnctid r), AInt (- id_col r),
               attr_dict (kilometers17 r) (minutes r) (rev (wkb_geometry r))
                 (AStr (str_int (- id_col r)))))
         (twoway_2017 rows)"

definition twoway_edges_ft_2017 :: "int row_2017 list \<Rightarrow> edge_tuple list" where
  "twoway_edges_ft_2017 rows =
     map (\<lambda>r. (AInt (f_jnctid r), AInt (t_jnctid r), AInt (id_col r),
               attr_dict (kilometers17 r) (minutes r) (wkb_geometry r)
                 (AStr (str_int (id_col r)))))
         (twoway_2017 rows)"

definition oneway_edges_ft_2017 :: "int row_2017 list \<Rightarrow> edge_tuple list" where
  "oneway_edges_ft_2017 rows =
     map (\<lambda>r. (AInt (f_jnctid r), AInt (t_jnctid r), AInt (id_col r),
               attr_dict (kilometers17 r) (minutes r) (wkb_geometry r)
                 (AStr (str_int (id_col r)))))
         (oneway_ft_2017 rows)"

definition oneway_edges_tf_2017 :: "int row_2017 list \<Rightarrow> edge_tuple list" where
  "oneway_edges_tf_2017 rows =
     map (\<lambda>r. (AInt (t_jnctid r), AInt (f_jnctid r), AInt (- id_col r),
               attr_dict (kilometers17 r) (minutes r) (rev (wkb_geometry r))
                 (AStr (str_int (- id_col r)))))
         (oneway_tf_2017 rows)"

definition edge_tuples_2017 :: "int row_2017 list \<Rightarrow> edge_tuple list" where
  "edge_tuples_2017 rows =
     twoway_edges_tf_2017 rows @ twoway_edges_ft_2017 rows @
     oneway_edges_ft_2017 rows @ oneway_edges_tf_2017 rows"

definition built_graph_2017 :: "int row_2017 list \<Rightarrow> nx_graph" where
  "built_graph_2017 rows =
     add_edges_from (oneway_edges_tf_2017 rows)
       (add_edges_from (oneway_edges_ft_2017 rows)
         (add_edges_from (twoway_edges_ft_2017 rows)
           (add_edges_from (twoway_edges_tf_2017 rows) MultiDiGraph)))"

text \<open>
  \<open>tomtom_gdf_to_nx_graph_2017\<close>. Lines 266 to 269 read \<open>list(g.coords)[0]\<close> and
  \<open>list(g.coords)[-1]\<close> of every geometry, which raises on one without coordinates; the
  four columns they fill are not read again.
\<close>

definition tomtom_gdf_to_nx_graph_2017 :: "pyfloat row_2017 gdf \<Rightarrow> error + nx_graph" where
  "tomtom_gdf_to_nx_graph_2017 gdf =
     (case astype_int_rows (gdf_rows gdf) of
        Inl e \<Rightarrow> Inl e
      | Inr rows \<Rightarrow>
          if list_ex (\<lambda>r. wkb_geometry r = []) rows then Inl IndexError
          else (case largest_component (built_graph_2017 rows) of
                  Inl e \<Rightarrow> Inl e
                | Inr G \<Rightarrow> Inr (set_graph_keys (gdf_crs gdf) G)))"

subsection \<open>\<open>read_tomtom_nxmap_from_sql\<close>\<close>

text \<open>The connection: what the database answers to each of the two queries.\<close>

record sql_connection =
  network_2021 :: "geofence \<Rightarrow> raw_2021 gdf"
  multinet_2017 :: "geofence \<Rightarrow> pyfloat raw_2017 gdf"

text \<open>
  \<open>read_tomtom_nxmap_from_sql\<close>. The class \<open>NxMap\<close> is defined elsewhere in the package;
  its constructor is the parameter \<open>NxMap\<close>. The result is the list of queries sent to the
  database and the map or the exception.
\<close>

definition read_tomtom_nxmap_from_sql ::
  "(crs option \<Rightarrow> crs \<Rightarrow> coord \<Rightarrow> coord) \<Rightarrow> (nx_graph \<Rightarrow> error + 'm) \<Rightarrow> sql_connection
     \<Rightarrow> geofence \<Rightarrow> atom \<Rightarrow> bool \<Rightarrow> sql_query list \<times> (error + 'm)" where
  "read_tomtom_nxmap_from_sql proj NxMap sql_con fence vintage xy =
     (if fence_crs fence \<noteq> LATLON_CRS then ([], Inl (TypeError_geofence_crs (fence_crs fence)))
      else if vintage = AStr ''2021'' then
        (case get_tomtom_gdf_2021 proj (network_2021 sql_con) fence xy of
           (qs, Inl e) \<Rightarrow> (qs, Inl e)
         | (qs, Inr gdf) \<Rightarrow>
             (case tomtom_gdf_to_nx_graph_2021 gdf of
                Inl e \<Rightarrow> (qs, Inl e)
              | Inr g \<Rightarrow> (qs, NxMap g)))
      else if vintage = AStr ''2017'' then
        (case get_tomtom_gdf_2017 proj (multinet_2017 sql_con) fence xy of
           (qs, Inl e) \<Rightarrow> (qs, Inl e)
         | (qs, Inr gdf) \<Rightarrow>
             (case tomtom_gdf_to_nx_graph_2017 gdf of
                Inl e \<Rightarrow> (qs, Inl e)
              | Inr g \<Rightarrow> (qs, NxMap g)))
      else ([], Inl (TypeError_vintage vintage)))"

subsection \<open>Reading edges and graphs\<close>

text \<open>The address \<open>(u, v, key)\<close> of an edge tuple, and one of its attributes.\<close>

fun edge_address :: "edge_tuple \<Rightarrow> atom \<times> atom \<times> atom" where
  "edge_address (u, v, key, dd) = (u, v, key)"

fun edge_attr :: "string \<Rightarrow> edge_tuple \<Rightarrow> pyobj option" where
  "edge_attr name (u, v, key, dd) = map_of dd name"

text \<open>The pairs \<open>(u, v)\<close> joined by an edge of the graph, under any key.\<close>

definition edge_pairs :: "nx_graph \<Rightarrow> (atom \<times> atom) set" where
  "edge_pairs G = (\<lambda>((u, v, key), dd). (u, v)) ` set (edges G)"

text \<open>Every node reaches every node along directed edges of the graph.\<close>

definition strongly_connected :: "nx_graph \<Rightarrow> bool" where
  "strongly_connected G = (\<forall>u\<in>set (nodes G). \<forall>v\<in>set (nodes G). (u, v) \<in> (edge_pairs G)\<^sup>*)"

text \<open>Both ends of a stored edge are nodes of \<open>G\<close>.\<close>

definition both_ends_in :: "nx_graph \<Rightarrow> (atom \<times> atom \<times> atom) \<times> attrs \<Rightarrow> bool" where
  "both_ends_in G e = (case e of ((u, v, key), dd) \<Rightarrow> u \<in> set (nodes G) \<and> v \<in> set (nodes G))"

text \<open>The invariant of a graph that only \<open>add_edges_from\<close> has filled.\<close>

definition ends_are_nodes :: "nx_graph \<Rightarrow> bool" where
  "ends_are_nodes G = (\<forall>(u, v)\<in>edge_pairs G. u \<in> set (nodes G) \<and> v \<in> set (nodes G))"

text \<open>The five graph attributes the builders set, for a frame with the crs \<open>c\<close>.\<close>

definition graph_keys :: "crs option \<Rightarrow> attrs" where
  "graph_keys c =
     [(''crs'', crs_obj c),
      (''distance_weight'', PyAtom (AStr ''kilometers'')),
      (''time_weight'', PyAtom (AStr ''minutes'')),
      (''geometry_key'', PyAtom (AStr ''geom'')),
      (''road_id_key'', PyAtom (AStr ''road_id''))]"

subsection \<open>Example inputs\<close>

definition ex_proj :: "crs option \<Rightarrow> crs \<Rightarrow> coord \<Rightarrow> coord" where
  "ex_proj src dst c = c"

definition ex_fence :: geofence where
  "ex_fence = \<lparr>fence_crs = LATLON_CRS, fence_geometry = [(0, 0), (0, 1), (1, 1), (1, 0)]\<rparr>"

definition ex_fence_xy :: geofence where
  "ex_fence_xy = \<lparr>fence_crs = XY_CRS, fence_geometry = [(0, 0), (0, 1), (1, 1), (1, 0)]\<rparr>"

text \<open>A two-way link of one kilometre between junctions 1 and 2: 3 minutes forward, 4 back.\<close>

definition raw_two :: raw_2021 where
  "raw_two =
     \<lparr>junction_id_from = AInt 1, junction_id_to = AInt 2, netw_id = AInt 10,
      simple_traffic_direction = Fin 1, centimeters = Fin 100000,
      speed_average_neg = Fin 15, speed_average_pos = Fin 20, geom = [(0, 0), (1, 0)]\<rparr>"

text \<open>A one-way link from junction 2 to junction 3.\<close>

definition raw_fwd :: raw_2021 where
  "raw_fwd =
     \<lparr>junction_id_from = AInt 2, junction_id_to = AInt 3, netw_id = AInt 11,
      simple_traffic_direction = Fin 2, centimeters = Fin 200000,
      speed_average_neg = Fin 24, speed_average_pos = Fin 24, geom = [(1, 0), (2, 0)]\<rparr>"

text \<open>The same link with the direction code 4, which no selection of the 2021 builder takes.\<close>

definition raw_code4 :: raw_2021 where
  "raw_code4 = raw_fwd\<lparr>simple_traffic_direction := Fin 4\<rparr>"

text \<open>A two-way link with no negative speed and a positive speed of zero.\<close>

definition raw_zero_speed :: raw_2021 where
  "raw_zero_speed = raw_two\<lparr>speed_average_neg := NaN, speed_average_pos := Fin 0\<rparr>"

definition ex_table_zero :: "geofence \<Rightarrow> raw_2021 gdf" where
  "ex_table_zero f = \<lparr>gdf_crs = None, gdf_rows = [raw_zero_speed]\<rparr>"

text \<open>A 2017 link without a \<open>oneway\<close> value, and one in poor condition (\<open>rdcond = 2\<close>).\<close>

definition raw17_two :: "pyfloat raw_2017" where
  "raw17_two =
     \<lparr>id_col = Fin 7, f_jnctid = Fin 1, t_jnctid = Fin 2, frc = Fin 3, backrd = Fin 0,
      rdcond = Fin 1, privaterd = Fin 0, roughrd = Fin 0, meters = Fin 1000, minutes = Fin 3,
      oneway = PyNone, wkb_geometry = [(0, 0), (1, 0)]\<rparr>"

definition raw17_poor :: "pyfloat raw_2017" where
  "raw17_poor =
     \<lparr>id_col = Fin 8, f_jnctid = Fin 2, t_jnctid = Fin 3, frc = Fin 3, backrd = Fin 0,
      rdcond = Fin 2, privaterd = Fin 0, roughrd = Fin 0, meters = Fin 2000, minutes = Fin 5,
      oneway = PyAtom (AStr ''FT''), wkb_geometry = [(1, 0), (2, 0)]\<rparr>"

definition ex_con :: sql_connection where
  "ex_con =
     \<lparr>network_2021 = (\<lambda>f. \<lparr>gdf_crs = None, gdf_rows = [raw_two, raw_code4]\<rparr>),
      multinet_2017 = (\<lambda>f. \<lparr>gdf_crs = None, gdf_rows = [raw17_poor]\<rparr>)\<rparr>"

definition ex_con_two :: sql_connection where
  "ex_con_two =
     \<lparr>network_2021 = (\<lambda>f. \<lparr>gdf_crs = None, gdf_rows = [raw_two, raw_fwd]\<rparr>),
      multinet_2017 = (\<lambda>f. \<lparr>gdf_crs = None, gdf_rows = [raw17_two, raw17_poor]\<rparr>)\<rparr>"

definition ex_gdf :: "row_2021 gdf" where
  "ex_gdf = \<lparr>gdf_crs = Some LATLON_CRS,
             gdf_rows = [add_columns_2021 raw_two, add_columns_2021 raw_fwd]\<rparr>"

definition ex_gdf17 :: "pyfloat row_2017 gdf" where
  "ex_gdf17 = \<lparr>gdf_crs = Some LATLON_CRS,
               gdf_rows = [fillna0_2017 (add_columns_2017 raw17_two)]\<rparr>"

text \<open>The component of junctions 1 and 2, as the 2021 and the 2017 builder return it.\<close>

definition ex_component :: nx_graph where
  "ex_component =
     \<lparr>nodes = [AInt 2, AInt 1],
      edges = [((AInt 2, AInt 1, AInt 10),
                [(''kilometers'', PyFloat (Fin 1)), (''minutes'', PyFloat (Fin 4)),
                 (''geom'', PyGeom [(1, 0), (0, 0)]), (''road_id'', PyAtom (AInt 10))]),
               ((AInt 1, AInt 2, AInt 10),
                [(''kilometers'', PyFloat (Fin 1)), (''minutes'', PyFloat (Fin 3)),
                 (''geom'', PyGeom [(0, 0), (1, 0)]), (''road_id'', PyAtom (AInt 10))])],
      graph = []\<rparr>"

definition ex_graph :: nx_graph where
  "ex_graph = ex_component\<lparr>graph := graph_keys (Some LATLON_CRS)\<rparr>"

definition ex_component17 :: nx_graph where
  "ex_component17 =
     \<lparr>nodes = [AInt 2, AInt 1],
      edges = [((AInt 2, AInt 1, AInt (- 7)),
                [(''kilometers'', PyFloat (Fin 1)), (''minutes'', PyFloat (Fin 3)),
                 (''geom'', PyGeom [(1, 0), (0, 0)]), (''road_id'', PyAtom (AStr ''-7''))]),
               ((AInt 1, AInt 2, AInt 7),
                [(''kilometers'', PyFloat (Fin 1)), (''minutes'', PyFloat (Fin 3)),
                 (''geom'', PyGeom [(0, 0), (1, 0)]), (''road_id'', PyAtom (AStr ''7''))])],
      graph = []\<rparr>"

definition ex_graph17 :: nx_graph where
  "ex_graph17 = ex_component17\<lparr>graph := graph_keys (Some LATLON_CRS)\<rparr>"

text \<open>The row of \<open>ex_gdf17\<close> after \<open>astype(int)\<close>.\<close>

definition ex_row17 :: "int row_2017" where
  "ex_row17 =
     \<lparr>id_col = 7, f_jnctid = 1, t_jnctid = 2, frc = Fin 3, backrd = Fin 0,
      rdcond = Fin 1, privaterd = Fin 0, roughrd = Fin 0, meters = Fin 1000, minutes = Fin 3,
      oneway = PyAtom (AInt 0), wkb_geometry = [(0, 0), (1, 0)], kilometers17 = Fin 1\<rparr>"

section \<open>Properties\<close>

subsection \<open>Normalisation\<close>

lemma to_crs_2021_columns:
  "map pos_minutes (gdf_rows (to_crs_2021 proj t g)) = map pos_minutes (gdf_rows g)"
  "map neg_minutes (gdf_rows (to_crs_2021 proj t g)) = map neg_minutes (gdf_rows g)"
  "map kilometers (gdf_rows (to_crs_2021 proj t g)) = map kilometers (gdf_rows g)"
  by (simp_all add: to_crs_2021_def)

lemma add_columns_2021_sel:
  "kilometers (add_columns_2021 r) = fmul (centimeters r) (Fin 0.00001)"
  "pos_minutes (add_columns_2021 r) =
     fmul (fdiv (fmul (centimeters r) (Fin 0.00001)) (fillna 20 (speed_average_pos r))) (Fin 60)"
  "neg_minutes (add_columns_2021 r) =
     fmul (fdiv (fmul (centimeters r) (Fin 0.00001)) (fillna 20 (speed_average_neg r))) (Fin 60)"
  by (simp_all add: add_columns_2021_def Let_def raw_2021.defs row_2021.defs)

lemma get_tomtom_gdf_2021_columns:
  assumes "get_tomtom_gdf_2021 proj sql_con fence xy = (qs, Inr gdf)"
  shows "map pos_minutes (gdf_rows gdf) =
           map (pos_minutes \<circ> add_columns_2021) (gdf_rows (sql_con fence))"
    and "map neg_minutes (gdf_rows gdf) =
           map (neg_minutes \<circ> add_columns_2021) (gdf_rows (sql_con fence))"
    and "map kilometers (gdf_rows gdf) =
           map (kilometers \<circ> add_columns_2021) (gdf_rows (sql_con fence))"
  using assms
  by (auto simp: get_tomtom_gdf_2021_def Let_def to_crs_2021_columns split: if_splits)

text \<open>
  Claim C4, as the code has it: in the 2021 reader a missing speed is replaced by 20 before
  the time is derived, so the time of a row whose speed is missing is
  \<open>(kilometers / 20) * 60\<close>. A speed that is present is used as it is, zero included.
\<close>

theorem missing_speed_default:
  assumes "get_tomtom_gdf_2021 proj sql_con fence xy = (qs, Inr gdf)"
    and "i < length (gdf_rows (sql_con fence))"
  shows "i < length (gdf_rows gdf) \<and>
         (speed_average_pos (gdf_rows (sql_con fence) ! i) = NaN \<longrightarrow>
            pos_minutes (gdf_rows gdf ! i) =
              fmul (fdiv (kilometers (gdf_rows gdf ! i)) (Fin 20)) (Fin 60)) \<and>
         (speed_average_neg (gdf_rows (sql_con fence) ! i) = NaN \<longrightarrow>
            neg_minutes (gdf_rows gdf ! i) =
              fmul (fdiv (kilometers (gdf_rows gdf ! i)) (Fin 20)) (Fin 60)) \<and>
         (\<forall>s. speed_average_pos (gdf_rows (sql_con fence) ! i) = Fin s \<longrightarrow>
            pos_minutes (gdf_rows gdf ! i) =
              fmul (fdiv (kilometers (gdf_rows gdf ! i)) (Fin s)) (Fin 60)) \<and>
         (\<forall>s. speed_average_neg (gdf_rows (sql_con fence) ! i) = Fin s \<longrightarrow>
            neg_minutes (gdf_rows gdf ! i) =
              fmul (fdiv (kilometers (gdf_rows gdf ! i)) (Fin s)) (Fin 60))"
proof -
  let ?raw = "gdf_rows (sql_con fence)"
  have len: "length (gdf_rows gdf) = length ?raw"
    using get_tomtom_gdf_2021_columns(1)[OF assms(1)] by (metis length_map)
  then have i: "i < length (gdf_rows gdf)" using assms(2) by simp
  have km: "kilometers (gdf_rows gdf ! i) = kilometers (add_columns_2021 (?raw ! i))"
    using get_tomtom_gdf_2021_columns(3)[OF assms(1)] i assms(2)
    by (metis comp_apply nth_map)
  have pos: "pos_minutes (gdf_rows gdf ! i) = pos_minutes (add_columns_2021 (?raw ! i))"
    using get_tomtom_gdf_2021_columns(1)[OF assms(1)] i assms(2)
    by (metis comp_apply nth_map)
  have neg: "neg_minutes (gdf_rows gdf ! i) = neg_minutes (add_columns_2021 (?raw ! i))"
    using get_tomtom_gdf_2021_columns(2)[OF assms(1)] i assms(2)
    by (metis comp_apply nth_map)
  show ?thesis
    using i by (simp add: km pos neg add_columns_2021_sel)
qed

theorem missing_speed_default_witness:
  "get_tomtom_gdf_2021 ex_proj ex_table_zero ex_fence False =
     ([Select_2021 ex_fence],
      Inr \<lparr>gdf_crs = Some LATLON_CRS, gdf_rows = [add_columns_2021 raw_zero_speed]\<rparr>) \<and>
   0 < length (gdf_rows (ex_table_zero ex_fence)) \<and>
   speed_average_neg (gdf_rows (ex_table_zero ex_fence) ! 0) = NaN \<and>
   neg_minutes
     (gdf_rows \<lparr>gdf_crs = Some LATLON_CRS, gdf_rows = [add_columns_2021 raw_zero_speed]\<rparr> ! 0) =
     fmul (fdiv (kilometers
       (gdf_rows \<lparr>gdf_crs = Some LATLON_CRS, gdf_rows = [add_columns_2021 raw_zero_speed]\<rparr> ! 0))
       (Fin 20)) (Fin 60)"
proof -
  have h: "get_tomtom_gdf_2021 ex_proj ex_table_zero ex_fence False =
     ([Select_2021 ex_fence],
      Inr \<lparr>gdf_crs = Some LATLON_CRS, gdf_rows = [add_columns_2021 raw_zero_speed]\<rparr>)"
    by (simp add: get_tomtom_gdf_2021_def ex_table_zero_def)
  have i: "0 < length (gdf_rows (ex_table_zero ex_fence))"
    by (simp add: ex_table_zero_def)
  have n: "speed_average_neg (gdf_rows (ex_table_zero ex_fence) ! 0) = NaN"
    by (simp add: ex_table_zero_def raw_zero_speed_def)
  from missing_speed_default[OF h i] n h i show ?thesis by blast
qed

text \<open>
  Claim C4 as stated fails for a speed of zero: a link of one kilometre with
  \<open>speed_average_pos = 0\<close> gets an infinite \<open>pos_minutes\<close>, not \<open>(1 / 20) * 60 = 3\<close>.
\<close>

theorem zero_speed_counterexample:
  "speed_average_pos raw_zero_speed = Fin 0 \<and>
   get_tomtom_gdf_2021 ex_proj ex_table_zero ex_fence False =
     ([Select_2021 ex_fence],
      Inr \<lparr>gdf_crs = Some LATLON_CRS, gdf_rows = [add_columns_2021 raw_zero_speed]\<rparr>) \<and>
   kilometers (add_columns_2021 raw_zero_speed) = Fin 1 \<and>
   pos_minutes (add_columns_2021 raw_zero_speed) = PInf \<and>
   fmul (fdiv (kilometers (add_columns_2021 raw_zero_speed)) (Fin 20)) (Fin 60) = Fin 3"
  by (simp add: get_tomtom_gdf_2021_def ex_table_zero_def raw_zero_speed_def raw_two_def
      add_columns_2021_sel inf_of_def)

text \<open>
  Claim C3, as the code has it: both readers raise the no-links exception exactly when the
  query answers no row, and return a frame otherwise. The 2017 row mask comes after that
  check: the frame has as many rows as the mask keeps, none when it keeps none.
\<close>

theorem empty_input_error:
  "(snd (get_tomtom_gdf_2021 proj con21 fence xy) = Inl MapException_no_links) =
     (gdf_rows (con21 fence) = []) \<and>
   (snd (get_tomtom_gdf_2017 proj con17 fence xy) = Inl MapException_no_links) =
     (gdf_rows (con17 fence) = []) \<and>
   (\<exists>g. snd (get_tomtom_gdf_2021 proj con21 fence xy) = Inr g) =
     (gdf_rows (con21 fence) \<noteq> []) \<and>
   (gdf_rows (con17 fence) \<noteq> [] \<longrightarrow>
      (\<exists>g. snd (get_tomtom_gdf_2017 proj con17 fence xy) = Inr g \<and>
           length (gdf_rows g) =
             length (filter keep_2017 (map add_columns_2017 (gdf_rows (con17 fence))))))"
  by (simp add: get_tomtom_gdf_2021_def get_tomtom_gdf_2017_def Let_def to_crs_2017_def)

theorem empty_input_error_witness:
  "gdf_rows (multinet_2017 ex_con_two ex_fence) \<noteq> [] \<and>
   (\<exists>g. snd (get_tomtom_gdf_2017 ex_proj (multinet_2017 ex_con_two) ex_fence True) = Inr g \<and>
        length (gdf_rows g) =
          length (filter keep_2017
                    (map add_columns_2017 (gdf_rows (multinet_2017 ex_con_two ex_fence)))))"
proof -
  have h: "gdf_rows (multinet_2017 ex_con_two ex_fence) \<noteq> []"
    by (simp add: ex_con_two_def)
  from empty_input_error[of ex_proj "network_2021 ex_con_two" ex_fence True
      "multinet_2017 ex_con_two"] h
  show ?thesis by blast
qed

text \<open>
  Claim C3 as stated fails when the filter leaves nothing: the only row of the answer has
  \<open>rdcond = 2\<close>, the mask drops it, and the reader returns a frame without rows.
\<close>

theorem filtered_empty_counterexample:
  "gdf_rows (multinet_2017 ex_con ex_fence) = [raw17_poor] \<and>
   filter keep_2017 (map add_columns_2017 [raw17_poor]) = [] \<and>
   get_tomtom_gdf_2017 ex_proj (multinet_2017 ex_con) ex_fence False =
     ([Select_2017 ex_fence], Inr \<lparr>gdf_crs = Some LATLON_CRS, gdf_rows = []\<rparr>)"
  by code_simp

subsection \<open>Edge expansion\<close>

lemma built_graph_2021_eq:
  "built_graph_2021 rows = add_edges_from (edge_tuples_2021 rows) MultiDiGraph"
  by (simp add: built_graph_2021_def edge_tuples_2021_def add_edges_from_def)

lemma built_graph_2017_eq:
  "built_graph_2017 rows = add_edges_from (edge_tuples_2017 rows) MultiDiGraph"
  by (simp add: built_graph_2017_def edge_tuples_2017_def add_edges_from_def)

lemma edge_tuples_2021_drop:
  assumes "simple_traffic_direction r \<noteq> Fin 1" "simple_traffic_direction r \<noteq> Fin 2"
    "simple_traffic_direction r \<noteq> Fin 3" "simple_traffic_direction r \<noteq> Fin 9"
  shows "edge_tuples_2021 (rows @ r # rows') = edge_tuples_2021 (rows @ rows')"
  using assms
  by (simp add: edge_tuples_2021_def twoway_edges_tf_2021_def twoway_edges_ft_2021_def
      oneway_edges_ft_2021_def oneway_edges_tf_2021_def twoway_2021_def oneway_ft_2021_def
      oneway_tf_2021_def)

text \<open>
  Claim C2, as the code has it: a two-way row gives exactly two edge tuples, from
  \<open>(to, from)\<close> and from \<open>(from, to)\<close>. In the 2017 builder the backward key is the negated
  road id, which differs from the forward key unless the id is 0; in the 2021 builder both
  tuples carry the same key \<open>netw_id\<close>.
\<close>

theorem both_directions_expansion:
  "((simple_traffic_direction r = Fin 1 \<or> simple_traffic_direction r = Fin 9) \<longrightarrow>
      map edge_address (edge_tuples_2021 [r]) =
        [(junction_id_to r, junction_id_from r, netw_id r),
         (junction_id_from r, junction_id_to r, netw_id r)]) \<and>
   ((oneway q \<noteq> PyAtom (AStr ''FT'') \<and> oneway q \<noteq> PyAtom (AStr ''TF'')) \<longrightarrow>
      map edge_address (edge_tuples_2017 [q]) =
        [(AInt (t_jnctid q), AInt (f_jnctid q), AInt (- id_col q)),
         (AInt (f_jnctid q), AInt (t_jnctid q), AInt (id_col q))] \<and>
      ((AInt (- id_col q) = AInt (id_col q)) = (id_col q = 0)))"
  by (auto simp: edge_tuples_2021_def twoway_edges_tf_2021_def twoway_edges_ft_2021_def
      oneway_edges_ft_2021_def oneway_edges_tf_2021_def twoway_2021_def oneway_ft_2021_def
      oneway_tf_2021_def edge_tuples_2017_def twoway_edges_tf_2017_def twoway_edges_ft_2017_def
      oneway_edges_ft_2017_def oneway_edges_tf_2017_def twoway_2017_def oneway_ft_2017_def
      oneway_tf_2017_def)

theorem both_directions_expansion_witness:
  "(simple_traffic_direction (add_columns_2021 raw_two) = Fin 1 \<or>
    simple_traffic_direction (add_columns_2021 raw_two) = Fin 9) \<and>
   map edge_address (edge_tuples_2021 [add_columns_2021 raw_two]) =
     [(junction_id_to (add_columns_2021 raw_two), junction_id_from (add_columns_2021 raw_two),
       netw_id (add_columns_2021 raw_two)),
      (junction_id_from (add_columns_2021 raw_two), junction_id_to (add_columns_2021 raw_two),
       netw_id (add_columns_2021 raw_two))] \<and>
   (oneway ex_row17 \<noteq> PyAtom (AStr ''FT'') \<and> oneway ex_row17 \<noteq> PyAtom (AStr ''TF'')) \<and>
   map edge_address (edge_tuples_2017 [ex_row17]) =
     [(AInt (t_jnctid ex_row17), AInt (f_jnctid ex_row17), AInt (- id_col ex_row17)),
      (AInt (f_jnctid ex_row17), AInt (t_jnctid ex_row17), AInt (id_col ex_row17))]"
proof -
  have h1: "simple_traffic_direction (add_columns_2021 raw_two) = Fin 1 \<or>
            simple_traffic_direction (add_columns_2021 raw_two) = Fin 9"
    by code_simp
  have h2: "oneway ex_row17 \<noteq> PyAtom (AStr ''FT'') \<and> oneway ex_row17 \<noteq> PyAtom (AStr ''TF'')"
    by (simp add: ex_row17_def)
  from both_directions_expansion[of "add_columns_2021 raw_two" ex_row17] h1 h2
  show ?thesis by blast
qed

text \<open>
  Claim C2 as stated fails in the 2021 builder: the two edges of the two-way link between
  junctions 1 and 2 have the same key, 10.
\<close>

theorem same_key_counterexample:
  "simple_traffic_direction (add_columns_2021 raw_two) = Fin 1 \<and>
   map edge_address (edge_tuples_2021 [add_columns_2021 raw_two]) =
     [(AInt 2, AInt 1, AInt 10), (AInt 1, AInt 2, AInt 10)]"
  by code_simp

text \<open>
  Claim C7: the geometry of every backward edge tuple, of a one-way \<open>TF\<close> row and of a
  two-way row, in both builders, is the row's coordinate sequence reversed.
\<close>

theorem reversed_geometry:
  "map (edge_attr ''geom'') (twoway_edges_tf_2021 rows) =
     map (\<lambda>r. Some (PyGeom (rev (geom r)))) (twoway_2021 rows) \<and>
   map (edge_attr ''geom'') (oneway_edges_tf_2021 rows) =
     map (\<lambda>r. Some (PyGeom (rev (geom r)))) (oneway_tf_2021 rows) \<and>
   map (edge_attr ''geom'') (twoway_edges_tf_2017 rows17) =
     map (\<lambda>r. Some (PyGeom (rev (wkb_geometry r)))) (twoway_2017 rows17) \<and>
   map (edge_attr ''geom'') (oneway_edges_tf_2017 rows17) =
     map (\<lambda>r. Some (PyGeom (rev (wkb_geometry r)))) (oneway_tf_2017 rows17)"
  by (simp add: twoway_edges_tf_2021_def oneway_edges_tf_2021_def twoway_edges_tf_2017_def
      oneway_edges_tf_2017_def attr_dict_def)

text \<open>
  Claim C6, as the code has it: the 2017 builder takes every row whose \<open>oneway\<close> is neither
  \<open>FT\<close> nor \<open>TF\<close> as two-way; the 2021 builder takes a row whose code is none of 1, 2, 3
  and 9 into no selection, so the row gives no edge and the result is that of the frame
  without the row. No exception is raised for the code.
\<close>

theorem unrecognized_direction:
  "((oneway q \<noteq> PyAtom (AStr ''FT'') \<and> oneway q \<noteq> PyAtom (AStr ''TF'')) \<longrightarrow>
      twoway_2017 [q] = [q] \<and> oneway_ft_2017 [q] = [] \<and> oneway_tf_2017 [q] = []) \<and>
   ((simple_traffic_direction r \<noteq> Fin 1 \<and> simple_traffic_direction r \<noteq> Fin 2 \<and>
     simple_traffic_direction r \<noteq> Fin 3 \<and> simple_traffic_direction r \<noteq> Fin 9) \<longrightarrow>
      edge_tuples_2021 (rows @ r # rows') = edge_tuples_2021 (rows @ rows') \<and>
      tomtom_gdf_to_nx_graph_2021 \<lparr>gdf_crs = c, gdf_rows = rows @ r # rows'\<rparr> =
        tomtom_gdf_to_nx_graph_2021 \<lparr>gdf_crs = c, gdf_rows = rows @ rows'\<rparr>)"
  by (simp add: twoway_2017_def oneway_ft_2017_def oneway_tf_2017_def edge_tuples_2021_drop
      tomtom_gdf_to_nx_graph_2021_def built_graph_2021_eq cong: sum.case_cong)

theorem unrecognized_direction_witness:
  "(oneway ex_row17 \<noteq> PyAtom (AStr ''FT'') \<and> oneway ex_row17 \<noteq> PyAtom (AStr ''TF'')) \<and>
   twoway_2017 [ex_row17] = [ex_row17] \<and>
   (simple_traffic_direction (add_columns_2021 raw_code4) \<noteq> Fin 1 \<and>
    simple_traffic_direction (add_columns_2021 raw_code4) \<noteq> Fin 2 \<and>
    simple_traffic_direction (add_columns_2021 raw_code4) \<noteq> Fin 3 \<and>
    simple_traffic_direction (add_columns_2021 raw_code4) \<noteq> Fin 9) \<and>
   tomtom_gdf_to_nx_graph_2021
     \<lparr>gdf_crs = Some LATLON_CRS,
      gdf_rows = [add_columns_2021 raw_two] @ add_columns_2021 raw_code4 # []\<rparr> =
   tomtom_gdf_to_nx_graph_2021
     \<lparr>gdf_crs = Some LATLON_CRS, gdf_rows = [add_columns_2021 raw_two] @ []\<rparr>"
proof -
  have h1: "oneway ex_row17 \<noteq> PyAtom (AStr ''FT'') \<and> oneway ex_row17 \<noteq> PyAtom (AStr ''TF'')"
    by (simp add: ex_row17_def)
  have h2: "simple_traffic_direction (add_columns_2021 raw_code4) \<noteq> Fin 1 \<and>
            simple_traffic_direction (add_columns_2021 raw_code4) \<noteq> Fin 2 \<and>
            simple_traffic_direction (add_columns_2021 raw_code4) \<noteq> Fin 3 \<and>
            simple_traffic_direction (add_columns_2021 raw_code4) \<noteq> Fin 9"
    by code_simp
  from unrecognized_direction[of ex_row17 "add_columns_2021 raw_code4"
      "[add_columns_2021 raw_two]" "[]" "Some LATLON_CRS"] h1 h2
  show ?thesis by blast
qed

text \<open>
  Claim C6 as stated fails in the 2021 reader: the answer holds a two-way link and a link
  with the code 4; the reader raises nothing and returns the graph of the first link alone.
\<close>

theorem dropped_record_counterexample:
  "simple_traffic_direction raw_code4 = Fin 4 \<and>
   network_2021 ex_con ex_fence = \<lparr>gdf_crs = None, gdf_rows = [raw_two, raw_code4]\<rparr> \<and>
   read_tomtom_nxmap_from_sql ex_proj Inr ex_con ex_fence (AStr ''2021'') False =
     ([Select_2021 ex_fence], Inr ex_graph) \<and>
   nodes ex_graph = [AInt 2, AInt 1] \<and>
   map fst (edges ex_graph) = [(AInt 2, AInt 1, AInt 10), (AInt 1, AInt 2, AInt 10)]"
  by code_simp

subsection \<open>Graph attributes\<close>

lemma subgraph_graph: "graph (subgraph G c) = graph G"
  by (simp add: subgraph_def)

lemma add_edge_graph: "graph (add_edge e G) = graph G"
  by (cases e) (simp add: add_node_def Let_def)

lemma add_edges_from_graph: "graph (add_edges_from es G) = graph G"
  unfolding add_edges_from_def
  by (induction es arbitrary: G) (simp_all add: add_edge_graph)

lemma largest_component_graph:
  "largest_component G = Inr R \<Longrightarrow> graph R = graph G"
  by (auto simp: largest_component_def Let_def subgraph_graph split: if_splits sum.splits)

lemma set_graph_keys_fresh:
  "graph G = [] \<Longrightarrow> graph (set_graph_keys c G) = graph_keys c"
  by (simp add: set_graph_keys_def dict_update_def graph_keys_def)

lemma set_graph_keys_frame:
  "nodes (set_graph_keys c G) = nodes G" "edges (set_graph_keys c G) = edges G"
  by (simp_all add: set_graph_keys_def)

text \<open>
  Claim C9: when the reduction returns the component \<open>R\<close>, the builder returns a graph with
  the nodes of \<open>R\<close>, the edges of \<open>R\<close> with their attributes, and as graph attributes
  exactly the crs and the four field names.
\<close>

theorem metadata_decoration:
  "(largest_component (built_graph_2021 (gdf_rows gdf)) = Inr R \<longrightarrow>
      (\<exists>G. tomtom_gdf_to_nx_graph_2021 gdf = Inr G \<and> nodes G = nodes R \<and> edges G = edges R \<and>
           graph G = graph_keys (gdf_crs gdf))) \<and>
   (astype_int_rows (gdf_rows gdf17) = Inr rows \<and> \<not> list_ex (\<lambda>r. wkb_geometry r = []) rows \<and>
    largest_component (built_graph_2017 rows) = Inr R17 \<longrightarrow>
      (\<exists>G. tomtom_gdf_to_nx_graph_2017 gdf17 = Inr G \<and> nodes G = nodes R17 \<and>
           edges G = edges R17 \<and> graph G = graph_keys (gdf_crs gdf17)))"
proof -
  have g21: "graph (built_graph_2021 rs) = []" for rs
    by (simp add: built_graph_2021_eq add_edges_from_graph MultiDiGraph_def)
  have g17: "graph (built_graph_2017 rs) = []" for rs
    by (simp add: built_graph_2017_eq add_edges_from_graph MultiDiGraph_def)
  show ?thesis
    by (auto simp: tomtom_gdf_to_nx_graph_2021_def tomtom_gdf_to_nx_graph_2017_def
        set_graph_keys_frame set_graph_keys_fresh g21 g17 dest!: largest_component_graph)
qed

theorem metadata_decoration_witness:
  "largest_component (built_graph_2021 (gdf_rows ex_gdf)) = Inr ex_component \<and>
   (\<exists>G. tomtom_gdf_to_nx_graph_2021 ex_gdf = Inr G \<and> nodes G = nodes ex_component \<and>
        edges G = edges ex_component \<and> graph G = graph_keys (gdf_crs ex_gdf)) \<and>
   astype_int_rows (gdf_rows ex_gdf17) = Inr [ex_row17] \<and>
   \<not> list_ex (\<lambda>r. wkb_geometry r = []) [ex_row17] \<and>
   largest_component (built_graph_2017 [ex_row17]) = Inr ex_component17 \<and>
   (\<exists>G. tomtom_gdf_to_nx_graph_2017 ex_gdf17 = Inr G \<and> nodes G = nodes ex_component17 \<and>
        edges G = edges ex_component17 \<and> graph G = graph_keys (gdf_crs ex_gdf17))"
proof -
  have h1: "largest_component (built_graph_2021 (gdf_rows ex_gdf)) = Inr ex_component"
    by code_simp
  have h2: "astype_int_rows (gdf_rows ex_gdf17) = Inr [ex_row17]"
    by code_simp
  have h3: "\<not> list_ex (\<lambda>r. wkb_geometry r = []) [ex_row17]"
    by (simp add: ex_row17_def)
  have h4: "largest_component (built_graph_2017 [ex_row17]) = Inr ex_component17"
    by code_simp
  from metadata_decoration[of ex_gdf ex_component ex_gdf17 "[ex_row17]" ex_component17]
    h1 h2 h3 h4
  show ?thesis by blast
qed

subsection \<open>Connectivity\<close>

lemma not_routable_unreachable: "largest_component G \<noteq> Inl MapException_not_routable"
  by (cases "strongly_connected_components G" rule: max_len.cases)
     (auto simp: largest_component_def truth_def Let_def split: sum.splits)

text \<open>The reduction fails on the graph without nodes only, and then with the error of \<open>max\<close>.\<close>

lemma largest_component_error:
  "largest_component G = Inl e \<longleftrightarrow> nodes G = [] \<and> e = ValueError_max_empty"
proof (cases "remdups (map (component_of G) (nodes G))")
  case Nil
  then have "nodes G = []" by (simp add: remdups_eq_nil_iff)
  with Nil show ?thesis
    by (auto simp: largest_component_def strongly_connected_components_def truth_def)
next
  case (Cons c cs)
  then have "nodes G \<noteq> []" by auto
  with Cons show ?thesis
    by (simp add: largest_component_def strongly_connected_components_def truth_def)
qed

text \<open>
  Claim C1 fails on the code: a frame whose rows give no edge builds a graph without
  edges, and both builders then raise the \<open>ValueError\<close> of \<open>max\<close>, not the not-routable
  exception (which \<open>not_routable_unreachable\<close> shows is never raised).
\<close>

theorem no_edges_value_error:
  "edges (built_graph_2021 [add_columns_2021 raw_code4]) = [] \<and>
   tomtom_gdf_to_nx_graph_2021
     \<lparr>gdf_crs = Some LATLON_CRS, gdf_rows = [add_columns_2021 raw_code4]\<rparr> =
     Inl ValueError_max_empty \<and>
   edges (built_graph_2017 []) = [] \<and>
   tomtom_gdf_to_nx_graph_2017 \<lparr>gdf_crs = Some LATLON_CRS, gdf_rows = []\<rparr> =
     Inl ValueError_max_empty"
  by code_simp

lemma successors_rel: "{(x, y). y \<in> set (successors G x)} = edge_pairs G"
  by (force simp: successors_def edge_pairs_def)

lemma finite_reach: "finite ((edge_pairs G)\<^sup>* `` {u})"
proof -
  have "(edge_pairs G)\<^sup>* `` {u} \<subseteq> insert u (Range (edge_pairs G))"
    by (auto elim: rtranclE)
  moreover have "finite (edge_pairs G)" by (simp add: edge_pairs_def)
  ultimately show ?thesis
    by (meson finite_Range finite_insert finite_subset)
qed

text \<open>The search always ends, and finds exactly the nodes a directed path reaches.\<close>

lemma descendants_eq: "descendants G u = (edge_pairs G)\<^sup>* `` {u}"
proof -
  have "finite ({(x, y). y \<in> set (successors G x)}\<^sup>* `` {u})"
    by (simp only: successors_rel finite_reach)
  then obtain st where st: "rtrancl_while (\<lambda>_. True) (successors G) u = Some st"
    using rtrancl_while_finite_Some[where f = "successors G" and x = u and p = "\<lambda>_. True"]
    by blast
  obtain ws Z where wz: "st = (ws, Z)" by (cases st)
  from rtrancl_while_Some[OF st[unfolded wz]]
  have "Z = (edge_pairs G)\<^sup>* `` {u}"
    by (simp only: successors_rel split: if_splits) auto
  then show ?thesis by (simp add: descendants_def st wz)
qed

lemma in_component_of:
  "v \<in> set (component_of G u) \<longleftrightarrow>
     v \<in> set (nodes G) \<and> (u, v) \<in> (edge_pairs G)\<^sup>* \<and> (v, u) \<in> (edge_pairs G)\<^sup>*"
  by (auto simp: component_of_def descendants_eq)

lemma edge_pairs_keys: "edge_pairs G = (\<lambda>(u, v, key). (u, v)) ` set (map fst (edges G))"
  by (force simp: edge_pairs_def)

lemma nodes_add_node: "set (nodes (add_node n G)) = insert n (set (nodes G))"
  by (auto simp: add_node_def)

lemma edges_add_node: "edges (add_node n G) = edges G"
  by (simp add: add_node_def)

lemma nodes_add_edge:
  "set (nodes (add_edge (u, v, key, dd) G)) = insert u (insert v (set (nodes G)))"
  by (auto simp: Let_def nodes_add_node)

lemma edge_pairs_add_edge:
  "edge_pairs (add_edge (u, v, key, dd) G) = insert (u, v) (edge_pairs G)"
proof -
  have "set (map fst (edges (add_edge (u, v, key, dd) G))) =
          insert (u, v, key) (set (map fst (edges G)))"
    by (auto simp: Let_def edges_add_node update_keys)
  then show ?thesis
    unfolding edge_pairs_keys by simp
qed

lemma ends_are_nodes_add_edge: "ends_are_nodes G \<Longrightarrow> ends_are_nodes (add_edge e G)"
proof -
  assume a: "ends_are_nodes G"
  obtain u v key dd where e: "e = (u, v, key, dd)" by (cases e)
  show ?thesis
    using a unfolding ends_are_nodes_def e edge_pairs_add_edge nodes_add_edge by auto
qed

lemma ends_are_nodes_add_edges_from:
  "ends_are_nodes G \<Longrightarrow> ends_are_nodes (add_edges_from es G)"
  unfolding add_edges_from_def
  by (induction es arbitrary: G) (simp_all add: ends_are_nodes_add_edge)

lemma ends_are_nodes_empty: "ends_are_nodes MultiDiGraph"
  by (simp add: ends_are_nodes_def MultiDiGraph_def edge_pairs_def)

lemma edge_pairs_subgraph:
  "edge_pairs (subgraph G c) = {(a, b). (a, b) \<in> edge_pairs G \<and> a \<in> set c \<and> b \<in> set c}"
  by (force simp: edge_pairs_def subgraph_def)

lemma nodes_subgraph: "set (nodes (subgraph G c)) = set (nodes G) \<inter> set c"
  by (auto simp: subgraph_def)

text \<open>
  A path between two nodes of the component of \<open>u\<close> never leaves the component: every
  node on it is reached from \<open>u\<close> through the start and reaches \<open>u\<close> through the end.
\<close>

lemma path_stays_in_component:
  assumes wf: "ends_are_nodes G"
    and xy: "(x, y) \<in> (edge_pairs G)\<^sup>*"
    and x: "(u, x) \<in> (edge_pairs G)\<^sup>*"
    and y: "(y, u) \<in> (edge_pairs G)\<^sup>*"
    and xn: "x \<in> set (nodes G)"
  shows "(x, y) \<in> (edge_pairs (subgraph G (component_of G u)))\<^sup>*"
  using xy x xn
proof (induction rule: converse_rtrancl_induct)
  case base
  show ?case by simp
next
  case (step a b)
  have bn: "b \<in> set (nodes G)" using wf step.hyps(1) by (auto simp: ends_are_nodes_def)
  have ub: "(u, b) \<in> (edge_pairs G)\<^sup>*" using step.prems(1) step.hyps(1) by auto
  have bu: "(b, u) \<in> (edge_pairs G)\<^sup>*" using step.hyps(2) y by auto
  have au: "(a, u) \<in> (edge_pairs G)\<^sup>*" using step.hyps(1) bu by auto
  have "(a, b) \<in> edge_pairs (subgraph G (component_of G u))"
    using step.hyps(1) step.prems bn ub bu au
    by (simp add: edge_pairs_subgraph in_component_of)
  moreover have "(b, y) \<in> (edge_pairs (subgraph G (component_of G u)))\<^sup>*"
    using step.IH ub bn by simp
  ultimately show ?case by auto
qed

lemma component_subgraph_connected:
  assumes "ends_are_nodes G"
  shows "strongly_connected (subgraph G (component_of G u))"
  unfolding strongly_connected_def
proof (intro ballI)
  fix x y
  assume "x \<in> set (nodes (subgraph G (component_of G u)))"
    and "y \<in> set (nodes (subgraph G (component_of G u)))"
  then have x: "x \<in> set (nodes G)" "(u, x) \<in> (edge_pairs G)\<^sup>*" "(x, u) \<in> (edge_pairs G)\<^sup>*"
    and y: "(u, y) \<in> (edge_pairs G)\<^sup>*" "(y, u) \<in> (edge_pairs G)\<^sup>*"
    by (simp_all add: nodes_subgraph in_component_of)
  have "(x, y) \<in> (edge_pairs G)\<^sup>*" using x(3) y(1) by auto
  then show "(x, y) \<in> (edge_pairs (subgraph G (component_of G u)))\<^sup>*"
    using path_stays_in_component[OF assms _ x(2) y(2) x(1)] by simp
qed

lemma fold_longest_mem:
  "fold (\<lambda>x best. if length best < length x then x else best) cs c \<in> set (c # cs)"
  by (induction cs arbitrary: c) (auto split: if_splits)

lemma max_len_mem: "max_len g = Inr c \<Longrightarrow> c \<in> set (items g)"
  using fold_longest_mem by (cases g rule: max_len.cases) fastforce+

lemma largest_component_is_component:
  assumes "largest_component G = Inr R"
  shows "\<exists>u\<in>set (nodes G). R = subgraph G (component_of G u)"
proof -
  from assms obtain c where c: "max_len (strongly_connected_components G) = Inr c"
    and R: "R = subgraph G c"
    by (auto simp: largest_component_def Let_def split: if_splits sum.splits)
  from max_len_mem[OF c] have "c \<in> component_of G ` set (nodes G)"
    by (simp add: strongly_connected_components_def)
  with R show ?thesis by auto
qed

lemma subgraph_component_edges:
  "edges (subgraph G (component_of G u)) =
     filter (\<lambda>((a, b, key), dd). a \<in> set (nodes (subgraph G (component_of G u))) \<and>
                                  b \<in> set (nodes (subgraph G (component_of G u)))) (edges G)"
proof -
  have "set (nodes (subgraph G (component_of G u))) = set (component_of G u)"
    by (auto simp: nodes_subgraph component_of_def)
  then show ?thesis by (simp add: subgraph_def)
qed

lemma strongly_connected_cong:
  "nodes G = nodes H \<Longrightarrow> edges G = edges H \<Longrightarrow> strongly_connected G = strongly_connected H"
  by (simp add: strongly_connected_def edge_pairs_def)

lemma reduced_graph_props:
  assumes wf: "ends_are_nodes B" and R: "largest_component B = Inr R"
  shows "strongly_connected (set_graph_keys c R) \<and>
         edges (set_graph_keys c R) = filter (both_ends_in (set_graph_keys c R)) (edges B)"
proof -
  from largest_component_is_component[OF R] obtain u
    where u: "R = subgraph B (component_of B u)" by blast
  have "strongly_connected R"
    unfolding u by (rule component_subgraph_connected[OF wf])
  then have sc: "strongly_connected (set_graph_keys c R)"
    by (simp add: strongly_connected_cong[of "set_graph_keys c R" R] set_graph_keys_frame)
  have "both_ends_in (set_graph_keys c R) = both_ends_in R"
    by (simp add: both_ends_in_def set_graph_keys_frame fun_eq_iff)
  moreover have "edges R = filter (both_ends_in R) (edges B)"
    unfolding u both_ends_in_def using subgraph_component_edges[of B u]
    by (simp add: case_prod_unfold)
  ultimately show ?thesis using sc by (simp add: set_graph_keys_frame)
qed

text \<open>
  Claim C5: in the graph either builder returns, every node reaches every node along
  directed edges of that graph, and its edges are the edges of the built graph with both
  ends among its nodes.
\<close>

theorem reduced_graph_strongly_connected:
  "(tomtom_gdf_to_nx_graph_2021 gdf = Inr G \<longrightarrow>
      strongly_connected G \<and>
      edges G = filter (both_ends_in G) (edges (built_graph_2021 (gdf_rows gdf)))) \<and>
   (tomtom_gdf_to_nx_graph_2017 gdf17 = Inr G17 \<longrightarrow>
      strongly_connected G17 \<and>
      (\<exists>rows. astype_int_rows (gdf_rows gdf17) = Inr rows \<and>
              edges G17 = filter (both_ends_in G17) (edges (built_graph_2017 rows))))"
proof (intro conjI impI)
  assume a: "tomtom_gdf_to_nx_graph_2021 gdf = Inr G"
  let ?B = "built_graph_2021 (gdf_rows gdf)"
  have wf: "ends_are_nodes ?B"
    by (simp add: built_graph_2021_eq ends_are_nodes_add_edges_from ends_are_nodes_empty)
  from a obtain R where R: "largest_component ?B = Inr R"
    and G: "G = set_graph_keys (gdf_crs gdf) R"
    by (auto simp: tomtom_gdf_to_nx_graph_2021_def split: sum.splits)
  from reduced_graph_props[OF wf R, of "gdf_crs gdf"]
  show "strongly_connected G"
    and "edges G = filter (both_ends_in G) (edges (built_graph_2021 (gdf_rows gdf)))"
    by (simp_all add: G)
next
  assume a: "tomtom_gdf_to_nx_graph_2017 gdf17 = Inr G17"
  then obtain rows R where rows: "astype_int_rows (gdf_rows gdf17) = Inr rows"
    and R: "largest_component (built_graph_2017 rows) = Inr R"
    and G: "G17 = set_graph_keys (gdf_crs gdf17) R"
    by (auto simp: tomtom_gdf_to_nx_graph_2017_def split: sum.splits if_splits)
  have wf: "ends_are_nodes (built_graph_2017 rows)"
    by (simp add: built_graph_2017_eq ends_are_nodes_add_edges_from ends_are_nodes_empty)
  from reduced_graph_props[OF wf R, of "gdf_crs gdf17"]
  show "strongly_connected G17"
    and "\<exists>rows. astype_int_rows (gdf_rows gdf17) = Inr rows \<and>
              edges G17 = filter (both_ends_in G17) (edges (built_graph_2017 rows))"
    using rows by (auto simp: G)
qed

theorem reduced_graph_strongly_connected_witness:
  "tomtom_gdf_to_nx_graph_2021 ex_gdf = Inr ex_graph \<and>
   nodes ex_graph = [AInt 2, AInt 1] \<and>
   strongly_connected ex_graph \<and>
   edges ex_graph = filter (both_ends_in ex_graph) (edges (built_graph_2021 (gdf_rows ex_gdf))) \<and>
   tomtom_gdf_to_nx_graph_2017 ex_gdf17 = Inr ex_graph17 \<and>
   nodes ex_graph17 = [AInt 2, AInt 1] \<and>
   strongly_connected ex_graph17"
proof -
  have h1: "tomtom_gdf_to_nx_graph_2021 ex_gdf = Inr ex_graph"
    by code_simp
  have h2: "tomtom_gdf_to_nx_graph_2017 ex_gdf17 = Inr ex_graph17"
    by code_simp
  have n1: "nodes ex_graph = [AInt 2, AInt 1]"
    by (simp add: ex_graph_def ex_component_def)
  have n2: "nodes ex_graph17 = [AInt 2, AInt 1]"
    by (simp add: ex_graph17_def ex_component17_def)
  from reduced_graph_strongly_connected[of ex_gdf ex_graph ex_gdf17 ex_graph17] h1 h2 n1 n2
  show ?thesis by blast
qed

subsection \<open>The reader\<close>

text \<open>
  Claim C10: with a geofence whose crs is not \<open>LATLON_CRS\<close>, the reader raises the
  geofence exception whatever the vintage, and sends no query.
\<close>

theorem geofence_crs_checked_first:
  "fence_crs fence \<noteq> LATLON_CRS \<Longrightarrow>
   read_tomtom_nxmap_from_sql proj NxMap sql_con fence vintage xy =
     ([], Inl (TypeError_geofence_crs (fence_crs fence)))"
  by (simp add: read_tomtom_nxmap_from_sql_def)

theorem geofence_crs_checked_first_witness:
  "fence_crs ex_fence_xy \<noteq> LATLON_CRS \<and>
   read_tomtom_nxmap_from_sql ex_proj Inr ex_con ex_fence_xy (AStr ''2021'') True =
     ([], Inl (TypeError_geofence_crs (fence_crs ex_fence_xy)))"
proof (rule conjI)
  show h: "fence_crs ex_fence_xy \<noteq> LATLON_CRS"
    by (simp add: ex_fence_xy_def)
  show "read_tomtom_nxmap_from_sql ex_proj Inr ex_con ex_fence_xy (AStr ''2021'') True =
     ([], Inl (TypeError_geofence_crs (fence_crs ex_fence_xy)))"
    by (rule geofence_crs_checked_first[OF h])
qed

text \<open>
  Claim C8, as the code has it: with a vintage that is neither \<open>'2021'\<close> nor \<open>'2017'\<close> the
  reader returns no map and sends no query; it raises the unsupported-vintage exception
  when the geofence is in \<open>LATLON_CRS\<close>, and the geofence exception otherwise.
\<close>

theorem unsupported_vintage:
  "vintage \<noteq> AStr ''2021'' \<Longrightarrow> vintage \<noteq> AStr ''2017'' \<Longrightarrow>
   read_tomtom_nxmap_from_sql proj NxMap sql_con fence vintage xy =
     ([], Inl (if fence_crs fence = LATLON_CRS then TypeError_vintage vintage
               else TypeError_geofence_crs (fence_crs fence)))"
  by (simp add: read_tomtom_nxmap_from_sql_def)

theorem unsupported_vintage_witness:
  "AInt 2021 \<noteq> AStr ''2021'' \<and> AInt 2021 \<noteq> AStr ''2017'' \<and>
   read_tomtom_nxmap_from_sql ex_proj Inr ex_con ex_fence (AInt 2021) True =
     ([], Inl (if fence_crs ex_fence = LATLON_CRS then TypeError_vintage (AInt 2021)
               else TypeError_geofence_crs (fence_crs ex_fence)))"
proof (intro conjI)
  show h1: "AInt 2021 \<noteq> AStr ''2021''" by simp
  show h2: "AInt 2021 \<noteq> AStr ''2017''" by simp
  show "read_tomtom_nxmap_from_sql ex_proj Inr ex_con ex_fence (AInt 2021) True =
     ([], Inl (if fence_crs ex_fence = LATLON_CRS then TypeError_vintage (AInt 2021)
               else TypeError_geofence_crs (fence_crs ex_fence)))"
    by (rule unsupported_vintage[OF h1 h2])
qed

text \<open>
  Claim C8 as stated fails when the geofence is not in \<open>LATLON_CRS\<close>: with the vintage
  \<open>'2019'\<close> the exception is the one of the geofence check, not the unsupported-vintage one.
\<close>

theorem unsupported_vintage_counterexample:
  "AStr ''2019'' \<noteq> AStr ''2021'' \<and> AStr ''2019'' \<noteq> AStr ''2017'' \<and>
   read_tomtom_nxmap_from_sql ex_proj Inr ex_con ex_fence_xy (AStr ''2019'') True =
     ([], Inl (TypeError_geofence_crs XY_CRS)) \<and>
   TypeError_geofence_crs XY_CRS \<noteq> TypeError_vintage (AStr ''2019'')"
  by (simp add: read_tomtom_nxmap_from_sql_def ex_fence_xy_def)

end
